theory Spec2Isabelle
  imports Main "HOL-Library.Word"
begin

section \<open>JavaScript strings\<close>

text \<open>
  A JavaScript string is a sequence of UTF-16 code units. \<open>str\<close> writes an ASCII literal of
  the source as such a sequence.
\<close>

type_synonym code_unit = "16 word"
type_synonym js_string = "code_unit list"

definition str :: "string \<Rightarrow> js_string" where
  "str cs = map of_char cs"

text \<open>
  \<open>String.prototype.trim\<close> removes the code units of ECMAScript's WhiteSpace and
  LineTerminator productions from both ends: TAB, LF, VT, FF, CR, SP, NBSP, the Unicode
  space separators and U+2028, U+2029, U+FEFF. All of them are single code units.
\<close>

definition isWhiteSpace :: "code_unit \<Rightarrow> bool" where
  "isWhiteSpace c = (c \<in> set [0x0009, 0x000A, 0x000B, 0x000C, 0x000D, 0x0020, 0x00A0, 0x1680,
      0x2000, 0x2001, 0x2002, 0x2003, 0x2004, 0x2005, 0x2006, 0x2007, 0x2008, 0x2009, 0x200A,
      0x2028, 0x2029, 0x202F, 0x205F, 0x3000, 0xFEFF])"

definition trim :: "js_string \<Rightarrow> js_string" where
  "trim s = rev (dropWhile isWhiteSpace (rev (dropWhile isWhiteSpace s)))"

fun startsWith :: "js_string \<Rightarrow> js_string \<Rightarrow> bool" where
  "startsWith s [] = True"
| "startsWith [] (p # ps) = False"
| "startsWith (c # cs) (p # ps) = (c = p \<and> startsWith cs ps)"

text \<open>\<open>s.includes(pat)\<close>: \<open>pat\<close> occurs in \<open>s\<close> as a contiguous run.\<close>

fun js_includes :: "js_string \<Rightarrow> js_string \<Rightarrow> bool" where
  "js_includes [] pat = (pat = [])"
| "js_includes (c # cs) pat = (startsWith (c # cs) pat \<or> js_includes cs pat)"

text \<open>
  Truthiness of a value of type \<open>string | null\<close> (or \<open>string | undefined\<close>): \<open>null\<close>,
  \<open>undefined\<close> and the empty string are falsy, every other string is truthy.
\<close>

definition truthy :: "js_string option \<Rightarrow> bool" where
  "truthy v = (case v of None \<Rightarrow> False | Some s \<Rightarrow> s \<noteq> [])"

section \<open>types.ts\<close>

record Product =
  id' :: js_string
  name :: js_string
  expiryDate :: js_string
  nameImageBase64 :: js_string
  expiryImageBase64 :: js_string
  scannedAt :: js_string

datatype ScanStage =
    IDLE
  | AWAITING_NAME_IMAGE
  | PROCESSING_NAME_IMAGE
  | AWAITING_EXPIRY_IMAGE
  | PROCESSING_EXPIRY_IMAGE
  | CONFIRM_DETAILS

section \<open>Values of the platform\<close>

text \<open>
  A value produced by \<open>JSON.parse\<close>. Numbers are IEEE doubles; no function of the program
  computes with them, so their type is left uninterpreted.
\<close>

typedecl js_number

datatype json =
    JNull
  | JBool bool
  | JNumber js_number
  | JString js_string
  | JArray "json list"
  | JObject "(js_string \<times> json) list"

text \<open>
  What a \<open>throw\<close> carries: an instance of \<open>Error\<close> with its message, or any other value.
\<close>

datatype thrown = JsError js_string | NonError

text \<open>
  A \<open>try { ... } catch (e) { ... }\<close> block: \<open>Inl\<close> is a value thrown and not caught.
\<close>

definition try_catch :: "thrown + 'a \<Rightarrow> (thrown \<Rightarrow> thrown + 'a) \<Rightarrow> thrown + 'a" where
  "try_catch body handler = (case body of Inl e \<Rightarrow> handler e | Inr v \<Rightarrow> Inr v)"

text \<open>
  The environment of a run: the credential \<open>process.env.API_KEY\<close>, the engine's
  \<open>JSON.parse\<close> (\<open>Inl m\<close> is a \<open>SyntaxError\<close> with message \<open>m\<close>; ECMAScript leaves the
  message to the engine).
\<close>

record environment =
  API_KEY :: "js_string option"
  JSON_parse :: "js_string \<Rightarrow> js_string + json"

section \<open>services/geminiService.ts\<close>

text \<open>
  The outcome of \<open>await ai.models.generateContent(...)\<close>, supplied by the service: the
  promise resolves with a response whose \<open>text\<close> is a string, or whose \<open>text\<close> is
  \<open>undefined\<close> (then \<open>response.text.trim()\<close> raises a \<open>TypeError\<close>, whose engine-defined
  message the constructor carries), or the promise rejects with a thrown value. The request
  itself is not modelled.
\<close>

datatype api_outcome =
    ResolvedText js_string
  | ResolvedUndefined js_string
  | Rejected thrown

definition comma :: code_unit where
  "comma = 0x2C"

definition getBase64Data :: "js_string \<Rightarrow> js_string" where
  "getBase64Data dataUrl =
     (if dataUrl = [] \<or> comma \<notin> set dataUrl then []
      else takeWhile (\<lambda>c. c \<noteq> comma) (tl (dropWhile (\<lambda>c. c \<noteq> comma) dataUrl)))"

text \<open>
  The \<open>catch\<close> block shared by both service functions: whatever was thrown inside the
  \<open>try\<close> is replaced by a new \<open>Error\<close>, chosen by substrings of the caught message;
  \<open>fallback\<close> is the message of the last \<open>throw\<close>.
\<close>

definition invalidKeyMessage :: js_string where
  "invalidKeyMessage = str ''Invalid Gemini API Key. Please check your configuration.''"

definition quotaMessage :: js_string where
  "quotaMessage = str ''Gemini API quota exceeded. Please check your usage or billing.''"

definition rethrow :: "js_string \<Rightarrow> thrown \<Rightarrow> thrown" where
  "rethrow fallback e =
     (case e of
        JsError m \<Rightarrow>
          if js_includes m (str ''API key not valid'') then JsError invalidKeyMessage
          else if js_includes m (str ''quota'') then JsError quotaMessage
          else JsError fallback
      | NonError \<Rightarrow> JsError fallback)"

definition extractFailedMessage :: js_string where
  "extractFailedMessage = str ''Failed to extract text using Gemini API. Check console for details.''"

definition extractTextFromImage ::
  "environment \<Rightarrow> js_string \<Rightarrow> js_string \<Rightarrow> api_outcome \<Rightarrow> thrown + js_string" where
  "extractTextFromImage env imageBase64DataUrl promptText outcome =
     (if \<not> truthy (API_KEY env) then Inl (JsError (str ''Gemini API Key is not configured.''))
      else if imageBase64DataUrl = [] then Inl (JsError (str ''Image data is missing.''))
      else if getBase64Data imageBase64DataUrl = []
        then Inl (JsError (str ''Invalid image data URL format.''))
      else try_catch
        (case outcome of
           ResolvedText t \<Rightarrow> Inr (trim t)
         | ResolvedUndefined m \<Rightarrow> Inl (JsError m)
         | Rejected e \<Rightarrow> Inl e)
        (\<lambda>e. Inl (rethrow extractFailedMessage e)))"

definition suggestFailedMessage :: js_string where
  "suggestFailedMessage = str ''Failed to suggest recipes using Gemini API. Check console for details.''"

definition suggestRecipesFromIngredients ::
  "environment \<Rightarrow> js_string list \<Rightarrow> api_outcome \<Rightarrow> thrown + json" where
  "suggestRecipesFromIngredients env ingredients outcome =
     (if \<not> truthy (API_KEY env) then Inl (JsError (str ''Gemini API Key is not configured.''))
      else if ingredients = []
        then Inl (JsError (str ''No ingredients provided to suggest recipes.''))
      else try_catch
        (case outcome of
           ResolvedText t \<Rightarrow>
             (let jsonText = trim t in
              if jsonText = [] then Inr (JArray [])
              else (case JSON_parse env jsonText of
                      Inl m \<Rightarrow> Inl (JsError m)
                    | Inr v \<Rightarrow> Inr v))
         | ResolvedUndefined m \<Rightarrow> Inl (JsError m)
         | Rejected e \<Rightarrow> Inl e)
        (\<lambda>e. Inl (rethrow suggestFailedMessage e)))"

section \<open>App.tsx\<close>

text \<open>
  The component's state slots that the scan workflow and the inventory use. The four slots
  of the recipe dialog are left out: no function below reads or writes them.
\<close>

record app_state =
  scanStage :: ScanStage
  products :: "Product list"
  currentNameImage :: "js_string option"
  currentExpiryImage :: "js_string option"
  extractedName :: js_string
  editedName :: js_string
  extractedExpiry :: js_string
  editedExpiry :: js_string
  isLoading :: bool
  error :: "js_string option"

definition initialState :: app_state where
  "initialState =
     \<lparr>scanStage = IDLE, products = [], currentNameImage = None, currentExpiryImage = None,
      extractedName = [], editedName = [], extractedExpiry = [], editedExpiry = [],
      isLoading = False, error = None\<rparr>"

text \<open>
  The effect that loads the products at the first render. \<open>localStorage.getItem\<close> either
  throws or returns the stored string (\<open>null\<close> when the key is absent).
\<close>

datatype storage_read = GetItemThrows thrown | GetItem "js_string option"

text \<open>
  What the effect leaves behind. \<open>StateKept s\<close>: \<open>setProducts\<close> was not called and the
  state is \<open>s\<close>. \<open>ProductsSetTo v s\<close>: the effect called \<open>setProducts(v)\<close> with the parsed
  value \<open>v\<close> as it is; the other slots are those of \<open>s\<close>. The code does not check that \<open>v\<close>
  is an array of products, so \<open>v\<close> is kept as a JSON value and is not read as a
  \<open>Product list\<close>: with the payload \<open>null\<close> the slot holds \<open>null\<close>, and the next render
  raises a \<open>TypeError\<close> at \<open>products.length\<close>.
\<close>

datatype load_result = StateKept app_state | ProductsSetTo json app_state

definition loadEffect :: "environment \<Rightarrow> storage_read \<Rightarrow> app_state \<Rightarrow> thrown + load_result" where
  "loadEffect env read s =
     try_catch
       (case read of
          GetItemThrows e \<Rightarrow> Inl e
        | GetItem storedProducts \<Rightarrow>
            if truthy storedProducts then
              (case JSON_parse env (the storedProducts) of
                 Inl m \<Rightarrow> Inl (JsError m)
               | Inr v \<Rightarrow> Inr (ProductsSetTo v s))
            else Inr (StateKept s))
       (\<lambda>e. Inr (StateKept (s\<lparr>error := Some (str ''Could not load saved products.'')\<rparr>)))"

text \<open>
  The effect that runs after every change of \<open>products\<close>: \<open>localStorage.setItem\<close> returns
  or throws (\<open>Some e\<close>).
\<close>

definition saveEffect :: "thrown option \<Rightarrow> app_state \<Rightarrow> thrown + app_state" where
  "saveEffect setItemThrows s =
     try_catch
       (case setItemThrows of None \<Rightarrow> Inr s | Some e \<Rightarrow> Inl e)
       (\<lambda>e. Inr (s\<lparr>error := Some (str ''Could not save products. Changes might not persist.'')\<rparr>))"

definition resetScanState :: "app_state \<Rightarrow> app_state" where
  "resetScanState s =
     s\<lparr>currentNameImage := None, currentExpiryImage := None,
       extractedName := [], editedName := [],
       extractedExpiry := [], editedExpiry := [],
       error := None\<rparr>"

definition handleStartScan :: "app_state \<Rightarrow> app_state" where
  "handleStartScan s = (resetScanState s)\<lparr>scanStage := AWAITING_NAME_IMAGE\<rparr>"

definition namePrompt :: js_string where
  "namePrompt = str ''Identify the primary product name from this image. Provide only the name.''"

definition expiryPrompt :: js_string where
  "expiryPrompt = str ''Identify the expiry date from this image. Provide only the date, ideally in YYYY-MM-DD format if clearly visible, otherwise as seen.''"

text \<open>
  \<open>err instanceof Error ? err.message : fallback\<close>.
\<close>

definition messageOf :: "thrown \<Rightarrow> js_string \<Rightarrow> js_string" where
  "messageOf err fallback = (case err of JsError m \<Rightarrow> m | NonError \<Rightarrow> fallback)"

text \<open>
  The two capture handlers are asynchronous; while the extraction is pending the component
  renders only the spinner, so no other handler runs in between, and a handler is one
  transition from the state before the capture to the state after the \<open>finally\<close> block.
\<close>

definition handleNameImageCapture ::
  "environment \<Rightarrow> js_string \<Rightarrow> api_outcome \<Rightarrow> app_state \<Rightarrow> app_state" where
  "handleNameImageCapture env imageBase64 outcome s =
     (let s1 = s\<lparr>currentNameImage := Some imageBase64, scanStage := PROCESSING_NAME_IMAGE,
                  isLoading := True, error := None\<rparr>;
          s2 = (case extractTextFromImage env imageBase64 namePrompt outcome of
                  Inr name' \<Rightarrow>
                    s1\<lparr>extractedName := name', editedName := name',
                       scanStage := AWAITING_EXPIRY_IMAGE\<rparr>
                | Inl err \<Rightarrow>
                    s1\<lparr>error := Some (messageOf err (str ''Failed to process product name image.'')),
                       scanStage := AWAITING_NAME_IMAGE\<rparr>)
      in s2\<lparr>isLoading := False\<rparr>)"

definition handleExpiryImageCapture ::
  "environment \<Rightarrow> js_string \<Rightarrow> api_outcome \<Rightarrow> app_state \<Rightarrow> app_state" where
  "handleExpiryImageCapture env imageBase64 outcome s =
     (let s1 = s\<lparr>currentExpiryImage := Some imageBase64, scanStage := PROCESSING_EXPIRY_IMAGE,
                  isLoading := True, error := None\<rparr>;
          s2 = (case extractTextFromImage env imageBase64 expiryPrompt outcome of
                  Inr expiry \<Rightarrow>
                    s1\<lparr>extractedExpiry := expiry, editedExpiry := expiry,
                       scanStage := CONFIRM_DETAILS\<rparr>
                | Inl err \<Rightarrow>
                    s1\<lparr>error := Some (messageOf err (str ''Failed to process expiry date image.'')),
                       scanStage := AWAITING_EXPIRY_IMAGE\<rparr>)
      in s2\<lparr>isLoading := False\<rparr>)"

text \<open>The two updaters passed to \<open>setProducts\<close>.\<close>

definition addProduct :: "Product \<Rightarrow> Product list \<Rightarrow> Product list" where
  "addProduct newProduct prevProducts = newProduct # prevProducts"

definition removeProduct :: "js_string \<Rightarrow> Product list \<Rightarrow> Product list" where
  "removeProduct productId prevProducts = filter (\<lambda>p. id' p \<noteq> productId) prevProducts"

text \<open>
  \<open>handleSaveProduct\<close>; \<open>uuid\<close> is what \<open>crypto.randomUUID()\<close> returns and \<open>now\<close> what
  \<open>new Date().toISOString()\<close> returns. Past the second guard both image slots hold a
  non-empty string, which \<open>the\<close> reads.
\<close>

definition handleSaveProduct :: "js_string \<Rightarrow> js_string \<Rightarrow> app_state \<Rightarrow> app_state" where
  "handleSaveProduct uuid now s =
     (if trim (editedName s) = [] then
        s\<lparr>error := Some (str ''Product name cannot be empty.'')\<rparr>
      else if \<not> truthy (currentNameImage s) \<or> \<not> truthy (currentExpiryImage s) then
        s\<lparr>error := Some (str ''Both product name and expiry images are required.'')\<rparr>
      else
        (let newProduct =
               \<lparr>id' = uuid,
                name = trim (editedName s),
                expiryDate = trim (editedExpiry s),
                nameImageBase64 = the (currentNameImage s),
                expiryImageBase64 = the (currentExpiryImage s),
                scannedAt = now\<rparr>
         in resetScanState
              (s\<lparr>products := addProduct newProduct (products s), scanStage := IDLE\<rparr>)))"

definition handleCancelScan :: "app_state \<Rightarrow> app_state" where
  "handleCancelScan s = resetScanState (s\<lparr>scanStage := IDLE\<rparr>)"

definition handleDeleteProduct :: "js_string \<Rightarrow> app_state \<Rightarrow> app_state" where
  "handleDeleteProduct productId s = s\<lparr>products := removeProduct productId (products s)\<rparr>"

text \<open>The \<open>onClick\<close> of the button "Retake All" on the confirmation screen.\<close>

definition retakeAll :: "app_state \<Rightarrow> app_state" where
  "retakeAll s = s\<lparr>scanStage := AWAITING_NAME_IMAGE\<rparr>"

section \<open>Example inputs\<close>

text \<open>
  Two data URLs as the capture surface produces them, a session on the confirmation
  screen, a session waiting for the first photo, a saved record, and an environment with a
  credential whose parser accepts the one text \<open>[{}]\<close> and rejects every other text with a
  message that quotes it, as the \<open>SyntaxError\<close> of V8 quotes the offending text.
\<close>

definition dataUrlA :: js_string where
  "dataUrlA = str ''data:image/jpeg;base64,QUJD''"

definition dataUrlB :: js_string where
  "dataUrlB = str ''data:image/jpeg;base64,REVG''"

definition confirmState :: app_state where
  "confirmState =
     \<lparr>scanStage = CONFIRM_DETAILS, products = [],
      currentNameImage = Some dataUrlA, currentExpiryImage = Some dataUrlB,
      extractedName = str ''Oats'', editedName = str ''Oats'',
      extractedExpiry = str ''2025-01-01'', editedExpiry = str ''2025-01-01'',
      isLoading = False, error = None\<rparr>"

definition awaitingNameState :: app_state where
  "awaitingNameState = handleStartScan initialState"

definition exampleProduct :: Product where
  "exampleProduct =
     \<lparr>id' = str ''id-1'', name = str ''Oats'', expiryDate = str ''2025-01-01'',
      nameImageBase64 = dataUrlA, expiryImageBase64 = dataUrlB,
      scannedAt = str ''2024-06-01T10:00:00.000Z''\<rparr>"

definition exampleParse :: "js_string \<Rightarrow> js_string + json" where
  "exampleParse t =
     (if t = str ''[{}]'' then Inr (JArray [JObject []])
      else Inl (str ''Unexpected token in JSON: '' @ t))"

definition exampleEnv :: environment where
  "exampleEnv =
     \<lparr>API_KEY = Some (str ''key''), JSON_parse = exampleParse\<rparr>"

section \<open>Auxiliary facts\<close>

lemma dropWhile_unchanged: "xs = [] \<or> \<not> P (hd xs) \<Longrightarrow> dropWhile P xs = xs"
  by (cases xs) auto

text \<open>A string that neither begins nor ends with white space is its own trimmed form.\<close>

lemma trim_unchanged:
  assumes "s = [] \<or> (\<not> isWhiteSpace (hd s) \<and> \<not> isWhiteSpace (last s))"
  shows "trim s = s"
proof (cases "s = []")
  case True
  then show ?thesis by (simp add: trim_def)
next
  case False
  with assms have h: "\<not> isWhiteSpace (hd s)" and l: "\<not> isWhiteSpace (last s)" by auto
  from h False have "dropWhile isWhiteSpace s = s" by (simp add: dropWhile_unchanged)
  moreover from l False have "dropWhile isWhiteSpace (rev s) = rev s"
    by (simp add: dropWhile_unchanged hd_rev)
  ultimately show ?thesis by (simp add: trim_def)
qed

text \<open>
  A rejected request (the network is down) on a well-formed image: the extraction fails
  with the generic message.
\<close>

lemma extract_example_fails:
  "extractTextFromImage exampleEnv dataUrlA namePrompt (Rejected (JsError (str ''Failed to fetch'')))
     = Inl (JsError extractFailedMessage)"
  by (simp add: extractTextFromImage_def exampleEnv_def truthy_def dataUrlA_def str_def
      getBase64Data_def comma_def try_catch_def rethrow_def)

section \<open>The scan workflow\<close>

subsection \<open>Saving on the confirmation screen\<close>

text \<open>
  C1. On the confirmation screen the save action succeeds exactly when the trimmed edited
  name is non-empty and both image slots hold an image. The guard of the code tests the
  truthiness of each slot, so a slot holds an image when it is neither \<open>null\<close> nor the
  empty string. On success a record with the given id, the trimmed name, the two images
  and the timestamp is put in front of the collection and the stage is \<open>IDLE\<close>; otherwise
  the collection is unchanged, the stage is still \<open>CONFIRM_DETAILS\<close> and an error message
  is set.
\<close>

theorem save_succeeds_iff_valid:
  assumes "scanStage s = CONFIRM_DETAILS"
  shows "if trim (editedName s) \<noteq> []
            \<and> currentNameImage s \<noteq> None \<and> currentNameImage s \<noteq> Some []
            \<and> currentExpiryImage s \<noteq> None \<and> currentExpiryImage s \<noteq> Some []
         then (\<exists>p. products (handleSaveProduct uuid now s) = p # products s
                  \<and> id' p = uuid \<and> name p = trim (editedName s)
                  \<and> currentNameImage s = Some (nameImageBase64 p)
                  \<and> currentExpiryImage s = Some (expiryImageBase64 p)
                  \<and> scannedAt p = now)
              \<and> scanStage (handleSaveProduct uuid now s) = IDLE
         else products (handleSaveProduct uuid now s) = products s
              \<and> scanStage (handleSaveProduct uuid now s) = CONFIRM_DETAILS
              \<and> error (handleSaveProduct uuid now s) \<noteq> None"
proof (cases "trim (editedName s) = []")
  case True
  then show ?thesis using assms by (simp add: handleSaveProduct_def)
next
  case False
  show ?thesis
  proof (cases "truthy (currentNameImage s) \<and> truthy (currentExpiryImage s)")
    case True
    then obtain n e where ne: "currentNameImage s = Some n" "n \<noteq> []"
        "currentExpiryImage s = Some e" "e \<noteq> []"
      by (auto simp: truthy_def split: option.splits)
    with False show ?thesis
      by (simp add: handleSaveProduct_def truthy_def resetScanState_def addProduct_def Let_def)
  next
    case False
    with \<open>trim (editedName s) \<noteq> []\<close> assms show ?thesis
      by (auto simp: handleSaveProduct_def truthy_def split: option.splits)
  qed
qed

text \<open>
  The session with the name \<open>Oats\<close> and both images is saved; the same session with a
  name of two spaces is rejected and stays on the confirmation screen.
\<close>

theorem save_succeeds_iff_valid_witness:
  "scanStage confirmState = CONFIRM_DETAILS
   \<and> scanStage (handleSaveProduct (str ''id-1'') (str ''2024-06-01T10:00:00.000Z'') confirmState)
       = IDLE
   \<and> length (products
        (handleSaveProduct (str ''id-1'') (str ''2024-06-01T10:00:00.000Z'') confirmState)) = 1
   \<and> scanStage (handleSaveProduct (str ''id-1'') (str ''2024-06-01T10:00:00.000Z'')
        (confirmState\<lparr>editedName := str ''  ''\<rparr>)) = CONFIRM_DETAILS
   \<and> products (handleSaveProduct (str ''id-1'') (str ''2024-06-01T10:00:00.000Z'')
        (confirmState\<lparr>editedName := str ''  ''\<rparr>)) = []"
proof -
  have st: "scanStage confirmState = CONFIRM_DETAILS"
    by (simp add: confirmState_def)
  have st2: "scanStage (confirmState\<lparr>editedName := str ''  ''\<rparr>) = CONFIRM_DETAILS"
    by (simp add: confirmState_def)
  have t1: "trim (editedName confirmState) \<noteq> []"
    by (simp add: confirmState_def str_def trim_def isWhiteSpace_def)
  have t2: "trim (editedName (confirmState\<lparr>editedName := str ''  ''\<rparr>)) = []"
    by (simp add: confirmState_def str_def trim_def isWhiteSpace_def)
  have im: "currentNameImage confirmState \<noteq> None \<and> currentNameImage confirmState \<noteq> Some []
     \<and> currentExpiryImage confirmState \<noteq> None \<and> currentExpiryImage confirmState \<noteq> Some []"
    by (simp add: confirmState_def dataUrlA_def dataUrlB_def str_def)
  from save_succeeds_iff_valid [OF st, of "str ''id-1''" "str ''2024-06-01T10:00:00.000Z''"]
    save_succeeds_iff_valid [OF st2, of "str ''id-1''" "str ''2024-06-01T10:00:00.000Z''"]
    t1 t2 im st
  show ?thesis by (auto simp: confirmState_def)
qed

subsection \<open>Retake all\<close>

text \<open>
  C2. The button "Retake All" moves the stage to \<open>AWAITING_NAME_IMAGE\<close>, so the two-photo
  sequence restarts, and it only sets the stage: the captured images and the extracted and
  edited text of the session are what they were.
\<close>

theorem retake_all_only_moves_stage:
  "scanStage (retakeAll s) = AWAITING_NAME_IMAGE
   \<and> currentNameImage (retakeAll s) = currentNameImage s
   \<and> currentExpiryImage (retakeAll s) = currentExpiryImage s
   \<and> extractedName (retakeAll s) = extractedName s
   \<and> editedName (retakeAll s) = editedName s
   \<and> extractedExpiry (retakeAll s) = extractedExpiry s
   \<and> editedExpiry (retakeAll s) = editedExpiry s"
  by (simp add: retakeAll_def)

text \<open>
  The session is therefore not cleared: after "Retake All" on the confirmation screen of
  the example, both images and the edited name are still in the session.
\<close>

theorem retake_all_counterexample:
  "scanStage confirmState = CONFIRM_DETAILS
   \<and> currentNameImage (retakeAll confirmState) = Some dataUrlA
   \<and> currentExpiryImage (retakeAll confirmState) = Some dataUrlB
   \<and> editedName (retakeAll confirmState) = str ''Oats''
   \<and> str ''Oats'' \<noteq> []"
  by (simp add: retakeAll_def confirmState_def str_def)

subsection \<open>A failed extraction of the name image\<close>

text \<open>
  C3. When the extraction of the name image fails, the stage returns to
  \<open>AWAITING_NAME_IMAGE\<close>, the message of the failure is the session's error, the expiry
  image, the four text slots and the collection are unchanged, and the name-image slot
  holds the image of the failed attempt, which the handler stores before the extraction
  starts.
\<close>

theorem name_capture_failure:
  assumes "extractTextFromImage env imageBase64 namePrompt outcome = Inl err"
  shows "scanStage (handleNameImageCapture env imageBase64 outcome s) = AWAITING_NAME_IMAGE
   \<and> error (handleNameImageCapture env imageBase64 outcome s)
       = Some (messageOf err (str ''Failed to process product name image.''))
   \<and> currentNameImage (handleNameImageCapture env imageBase64 outcome s) = Some imageBase64
   \<and> currentExpiryImage (handleNameImageCapture env imageBase64 outcome s) = currentExpiryImage s
   \<and> extractedName (handleNameImageCapture env imageBase64 outcome s) = extractedName s
   \<and> editedName (handleNameImageCapture env imageBase64 outcome s) = editedName s
   \<and> extractedExpiry (handleNameImageCapture env imageBase64 outcome s) = extractedExpiry s
   \<and> editedExpiry (handleNameImageCapture env imageBase64 outcome s) = editedExpiry s
   \<and> products (handleNameImageCapture env imageBase64 outcome s) = products s"
  using assms by (simp add: handleNameImageCapture_def Let_def)

text \<open>
  A rejected request during a retake from the example session: the stage goes back, the
  generic message is set and the expiry image captured before is kept.
\<close>

theorem name_capture_failure_witness:
  "extractTextFromImage exampleEnv dataUrlA namePrompt (Rejected (JsError (str ''Failed to fetch'')))
     = Inl (JsError extractFailedMessage)
   \<and> scanStage (handleNameImageCapture exampleEnv dataUrlA
        (Rejected (JsError (str ''Failed to fetch''))) confirmState) = AWAITING_NAME_IMAGE
   \<and> error (handleNameImageCapture exampleEnv dataUrlA
        (Rejected (JsError (str ''Failed to fetch''))) confirmState) = Some extractFailedMessage
   \<and> currentExpiryImage (handleNameImageCapture exampleEnv dataUrlA
        (Rejected (JsError (str ''Failed to fetch''))) confirmState) = Some dataUrlB"
  using name_capture_failure [OF extract_example_fails, of confirmState] extract_example_fails
  by (simp add: messageOf_def confirmState_def)

text \<open>
  The session does retain something new from the failed attempt: a session that had no
  name image holds the image of the failed capture afterwards.
\<close>

theorem name_capture_failure_counterexample:
  "currentNameImage awaitingNameState = None
   \<and> extractTextFromImage exampleEnv dataUrlA namePrompt (Rejected (JsError (str ''Failed to fetch'')))
       = Inl (JsError extractFailedMessage)
   \<and> currentNameImage
        (handleNameImageCapture exampleEnv dataUrlA (Rejected (JsError (str ''Failed to fetch'')))
           awaitingNameState) = Some dataUrlA"
  by (simp add: extract_example_fails handleNameImageCapture_def awaitingNameState_def
      handleStartScan_def resetScanState_def initialState_def Let_def)

subsection \<open>The expiry text of a saved record\<close>

text \<open>
  C4. The \<open>expiryDate\<close> of a saved record is the edited expiry text with the white space at
  both ends removed. It is exactly the edited text whenever that text is empty or neither
  begins nor ends with white space; nothing else is normalised or validated.
\<close>

theorem saved_expiry_is_trimmed_text:
  assumes "trim (editedName s) \<noteq> []"
    and "truthy (currentNameImage s)" and "truthy (currentExpiryImage s)"
  shows "\<exists>p. products (handleSaveProduct uuid now s) = p # products s
     \<and> expiryDate p = trim (editedExpiry s)
     \<and> (editedExpiry s = []
          \<or> (\<not> isWhiteSpace (hd (editedExpiry s)) \<and> \<not> isWhiteSpace (last (editedExpiry s)))
        \<longrightarrow> expiryDate p = editedExpiry s)"
  using assms
  by (auto simp: handleSaveProduct_def resetScanState_def addProduct_def Let_def trim_unchanged)

theorem saved_expiry_is_trimmed_text_witness:
  "trim (editedName confirmState) \<noteq> []
   \<and> truthy (currentNameImage confirmState) \<and> truthy (currentExpiryImage confirmState)
   \<and> \<not> isWhiteSpace (hd (editedExpiry confirmState))
   \<and> \<not> isWhiteSpace (last (editedExpiry confirmState))
   \<and> (\<exists>p. products (handleSaveProduct (str ''id-1'') (str ''2024-06-01T10:00:00.000Z'') confirmState)
             = [p]
          \<and> expiryDate p = str ''2025-01-01'')"
proof -
  have n: "trim (editedName confirmState) \<noteq> []"
    by (simp add: confirmState_def str_def trim_def isWhiteSpace_def)
  have i: "truthy (currentNameImage confirmState)" "truthy (currentExpiryImage confirmState)"
    by (simp_all add: confirmState_def truthy_def dataUrlA_def dataUrlB_def str_def)
  have w: "\<not> isWhiteSpace (hd (editedExpiry confirmState))"
      "\<not> isWhiteSpace (last (editedExpiry confirmState))"
    by (simp_all add: confirmState_def str_def isWhiteSpace_def)
  have e: "editedExpiry confirmState = str ''2025-01-01''" "products confirmState = []"
    by (simp_all add: confirmState_def)
  from saved_expiry_is_trimmed_text [OF n i, of "str ''id-1''" "str ''2024-06-01T10:00:00.000Z''"]
    n i w e
  show ?thesis by auto
qed

text \<open>
  An edited expiry text with a space in front is not preserved as it is: the record holds
  the text without the space.
\<close>

theorem saved_expiry_counterexample:
  "editedExpiry (confirmState\<lparr>editedExpiry := str '' 2025-01-01''\<rparr>) = str '' 2025-01-01''
   \<and> map expiryDate (products (handleSaveProduct (str ''id-1'') (str ''2024-06-01T10:00:00.000Z'')
        (confirmState\<lparr>editedExpiry := str '' 2025-01-01''\<rparr>))) = [str ''2025-01-01'']
   \<and> str ''2025-01-01'' \<noteq> str '' 2025-01-01''"
  by (simp add: handleSaveProduct_def confirmState_def truthy_def dataUrlA_def dataUrlB_def
      resetScanState_def addProduct_def Let_def str_def trim_def isWhiteSpace_def)

subsection \<open>Cancelling\<close>

text \<open>
  C9. Cancelling a scan returns the stage to \<open>IDLE\<close> with an empty session: both image slots
  are null, the four text slots are empty and no error message is kept. This holds from
  every stage, so in particular from every stage other than \<open>IDLE\<close>.
\<close>

theorem cancel_returns_to_idle_with_empty_session:
  "scanStage (handleCancelScan s) = IDLE
   \<and> currentNameImage (handleCancelScan s) = None
   \<and> currentExpiryImage (handleCancelScan s) = None
   \<and> extractedName (handleCancelScan s) = []
   \<and> editedName (handleCancelScan s) = []
   \<and> extractedExpiry (handleCancelScan s) = []
   \<and> editedExpiry (handleCancelScan s) = []
   \<and> error (handleCancelScan s) = None"
  by (simp add: handleCancelScan_def resetScanState_def)

section \<open>The inventory\<close>

subsection \<open>Loading at the first render\<close>

text \<open>
  C5. When the stored payload is absent or empty, no exception escapes the load effect,
  the collection starts empty and no message is set. When the payload is a non-empty text
  that fails to parse, no exception escapes, the collection starts empty and the warning
  \<open>Could not load saved products.\<close> is set. In all three cases \<open>setProducts\<close> is not
  called, so the state stays a state of the declared type.
\<close>

theorem load_starts_empty:
  "(payload = None \<or> payload = Some []
        \<longrightarrow> (\<exists>s'. loadEffect env (GetItem payload) initialState = Inr (StateKept s')
                  \<and> products s' = [] \<and> error s' = None))
   \<and> (\<forall>t m. payload = Some t \<and> t \<noteq> [] \<and> JSON_parse env t = Inl m
        \<longrightarrow> (\<exists>s'. loadEffect env (GetItem payload) initialState = Inr (StateKept s')
                  \<and> products s' = []
                  \<and> error s' = Some (str ''Could not load saved products.'')))"
proof (intro conjI allI impI)
  assume "payload = None \<or> payload = Some []"
  then have "loadEffect env (GetItem payload) initialState = Inr (StateKept initialState)"
    by (auto simp: loadEffect_def try_catch_def truthy_def)
  then show "\<exists>s'. loadEffect env (GetItem payload) initialState = Inr (StateKept s')
      \<and> products s' = [] \<and> error s' = None"
    by (simp add: initialState_def)
next
  fix t m
  assume "payload = Some t \<and> t \<noteq> [] \<and> JSON_parse env t = Inl m"
  then have "loadEffect env (GetItem payload) initialState
      = Inr (StateKept (initialState\<lparr>error := Some (str ''Could not load saved products.'')\<rparr>))"
    by (simp add: loadEffect_def try_catch_def truthy_def)
  then show "\<exists>s'. loadEffect env (GetItem payload) initialState = Inr (StateKept s')
      \<and> products s' = [] \<and> error s' = Some (str ''Could not load saved products.'')"
    by (simp add: initialState_def)
qed

theorem load_starts_empty_witness:
  "JSON_parse exampleEnv (str ''{oops'') = Inl (str ''Unexpected token in JSON: {oops'')
   \<and> (\<exists>s'. loadEffect exampleEnv (GetItem (Some (str ''{oops''))) initialState
            = Inr (StateKept s')
          \<and> products s' = [] \<and> error s' = Some (str ''Could not load saved products.''))
   \<and> (\<exists>s'. loadEffect exampleEnv (GetItem None) initialState = Inr (StateKept s')
          \<and> products s' = [] \<and> error s' = None)"
proof -
  have p: "JSON_parse exampleEnv (str ''{oops'') = Inl (str ''Unexpected token in JSON: {oops'')"
    by (simp add: exampleEnv_def exampleParse_def str_def)
  have ne: "str ''{oops'' \<noteq> []" by (simp add: str_def)
  from load_starts_empty [of "Some (str ''{oops'')" exampleEnv]
    load_starts_empty [of None exampleEnv] p ne
  show ?thesis by simp
qed

text \<open>
  No warning is surfaced for an absent or an empty payload: the state after the effect is
  the initial state, whose error slot is \<open>null\<close>.
\<close>

theorem load_absent_counterexample:
  "loadEffect exampleEnv (GetItem None) initialState = Inr (StateKept initialState)
   \<and> loadEffect exampleEnv (GetItem (Some [])) initialState = Inr (StateKept initialState)
   \<and> error initialState = None"
  by (simp add: loadEffect_def try_catch_def truthy_def initialState_def)

text \<open>
  A payload that parses is outside these three cases: the parsed value goes to
  \<open>setProducts\<close> unchecked, here the value \<open>null\<close>.
\<close>

lemma load_parsed_value_unchecked:
  "loadEffect (exampleEnv\<lparr>JSON_parse := (\<lambda>t. Inr JNull)\<rparr>) (GetItem (Some (str ''null'')))
     initialState = Inr (ProductsSetTo JNull initialState)"
  by (simp add: loadEffect_def try_catch_def truthy_def str_def)

subsection \<open>Adding and removing\<close>

text \<open>Removing by an id that no record has leaves the collection as it is.\<close>

lemma remove_absent_id:
  assumes "productId \<notin> id' ` set ps"
  shows "removeProduct productId ps = ps"
proof -
  from assms have "\<forall>p \<in> set ps. id' p \<noteq> productId" by (metis imageI)
  then have "filter (\<lambda>p. id' p \<noteq> productId) ps = ps" by (simp add: filter_id_conv)
  then show ?thesis by (simp add: removeProduct_def)
qed

text \<open>
  C7. Adding a record and then removing by its id gives back the collection as it was
  before the add, in order and contents. The id of a record is a unique identifier: the
  only add of the program gives the new record the result of \<open>crypto.randomUUID()\<close>, so
  the id of the record added is the id of no record already in the collection.
\<close>

theorem add_then_remove_restores:
  assumes "id' r \<notin> id' ` set ps"
  shows "removeProduct (id' r) (addProduct r ps) = ps"
proof -
  have "removeProduct (id' r) (addProduct r ps) = removeProduct (id' r) ps"
    by (simp add: removeProduct_def addProduct_def)
  with assms show ?thesis by (simp add: remove_absent_id)
qed

theorem add_then_remove_restores_witness:
  "id' exampleProduct \<notin> id' ` set [exampleProduct\<lparr>id' := str ''id-0''\<rparr>]
   \<and> removeProduct (id' exampleProduct)
        (addProduct exampleProduct [exampleProduct\<lparr>id' := str ''id-0''\<rparr>])
      = [exampleProduct\<lparr>id' := str ''id-0''\<rparr>]"
proof -
  have f: "id' exampleProduct \<notin> id' ` set [exampleProduct\<lparr>id' := str ''id-0''\<rparr>]"
    by (simp add: exampleProduct_def str_def)
  from add_then_remove_restores [OF f] f show ?thesis by simp
qed

text \<open>
  The same through the handlers: a save that succeeds with a fresh id, followed by the
  deletion of that id, leaves the collection of the state before the save.
\<close>

lemma save_then_delete_restores:
  assumes "trim (editedName s) \<noteq> []"
    and "truthy (currentNameImage s)" and "truthy (currentExpiryImage s)"
    and "uuid \<notin> id' ` set (products s)"
  shows "products (handleDeleteProduct uuid (handleSaveProduct uuid now s)) = products s"
proof -
  from assms(1-3) have "products (handleSaveProduct uuid now s)
      = \<lparr>id' = uuid, name = trim (editedName s), expiryDate = trim (editedExpiry s),
         nameImageBase64 = the (currentNameImage s),
         expiryImageBase64 = the (currentExpiryImage s), scannedAt = now\<rparr> # products s"
    by (simp add: handleSaveProduct_def resetScanState_def addProduct_def Let_def)
  then have "products (handleDeleteProduct uuid (handleSaveProduct uuid now s))
      = removeProduct uuid (products s)"
    by (simp add: handleDeleteProduct_def removeProduct_def)
  with assms(4) show ?thesis by (simp add: remove_absent_id)
qed

text \<open>
  C8. Every add puts the new record in front: after adding the records \<open>rs\<close> one after the
  other to a collection \<open>ps\<close>, the collection lists them most recent first, followed by
  \<open>ps\<close>.
\<close>

theorem sequential_adds_reverse_order:
  "fold addProduct rs ps = rev rs @ ps"
proof (induction rs arbitrary: ps)
  case Nil
  show ?case by simp
next
  case (Cons r rs)
  have "fold addProduct (r # rs) ps = fold addProduct rs (r # ps)"
    by (simp add: addProduct_def)
  also have "\<dots> = rev rs @ (r # ps)" by (rule Cons.IH)
  finally show ?case by simp
qed

section \<open>Recipe suggestions\<close>

text \<open>
  With a credential and a non-empty list of names, a response text that is empty after
  trimming gives the empty array and nothing is raised; a trimmed text that is non-empty
  and that the parser rejects makes the function fail with an \<open>Error\<close>.
\<close>

lemma empty_response_gives_empty_sequence:
  assumes "truthy (API_KEY env)" and "ingredients \<noteq> []" and "trim t = []"
  shows "suggestRecipesFromIngredients env ingredients (ResolvedText t) = Inr (JArray [])"
  using assms by (simp add: suggestRecipesFromIngredients_def try_catch_def Let_def)

lemma unparsable_response_fails:
  assumes "truthy (API_KEY env)" and "ingredients \<noteq> []"
    and "trim t \<noteq> []" and "JSON_parse env (trim t) = Inl m"
  shows "\<exists>e. suggestRecipesFromIngredients env ingredients (ResolvedText t) = Inl (JsError e)"
  using assms
  by (simp add: suggestRecipesFromIngredients_def try_catch_def rethrow_def Let_def)

text \<open>
  C6. A response text that is non-empty and cannot be parsed should make the function fail
  with its generic failure \<open>Failed to suggest recipes ...\<close>. The \<open>catch\<close> block, written to
  classify the errors of the service, also receives the \<open>SyntaxError\<close> of the function's
  own \<open>JSON.parse\<close> and classifies it by its message. With a parser that quotes the
  rejected text, the response text \<open>quota\<close> is non-empty and unparsable, and the function
  fails with the quota error, not with the generic failure.
\<close>

theorem unparsable_response_misclassified:
  "truthy (API_KEY exampleEnv)
   \<and> trim (str ''quota'') \<noteq> []
   \<and> JSON_parse exampleEnv (trim (str ''quota'')) = Inl (str ''Unexpected token in JSON: quota'')
   \<and> suggestRecipesFromIngredients exampleEnv [str ''eggs'', str ''bread''] (ResolvedText (str ''quota''))
       = Inl (JsError quotaMessage)
   \<and> quotaMessage \<noteq> suggestFailedMessage"
  by (simp add: suggestRecipesFromIngredients_def exampleEnv_def exampleParse_def truthy_def
      try_catch_def rethrow_def quotaMessage_def suggestFailedMessage_def str_def trim_def
      isWhiteSpace_def Let_def)

text \<open>
  C10. With a credential and a non-empty list of names: when the trimmed response text is
  non-empty and the parser accepts it, the function returns the parsed value itself,
  whatever its shape; no field of a recipe is looked at.
\<close>

theorem parsed_value_returned_unvalidated:
  assumes "truthy (API_KEY env)" and "ingredients \<noteq> []"
    and "trim t \<noteq> []" and "JSON_parse env (trim t) = Inr v"
  shows "suggestRecipesFromIngredients env ingredients (ResolvedText t) = Inr v"
  using assms
  by (simp add: suggestRecipesFromIngredients_def try_catch_def Let_def)

text \<open>
  An array of one object without \<open>recipeName\<close>, \<open>ingredients\<close> and \<open>instructions\<close> is returned
  as it is.
\<close>

theorem parsed_value_returned_unvalidated_witness:
  "truthy (API_KEY exampleEnv)
   \<and> trim (str '' [{}] '') \<noteq> []
   \<and> JSON_parse exampleEnv (trim (str '' [{}] '')) = Inr (JArray [JObject []])
   \<and> suggestRecipesFromIngredients exampleEnv [str ''eggs'', str ''bread''] (ResolvedText (str '' [{}] ''))
       = Inr (JArray [JObject []])"
proof -
  have k: "truthy (API_KEY exampleEnv)" by (simp add: exampleEnv_def truthy_def str_def)
  have i: "[str ''eggs'', str ''bread''] \<noteq> []" by simp
  have t: "trim (str '' [{}] '') = str ''[{}]''" by (simp add: str_def trim_def isWhiteSpace_def)
  have ne: "trim (str '' [{}] '') \<noteq> []" by (simp add: t) (simp add: str_def)
  have p: "JSON_parse exampleEnv (trim (str '' [{}] '')) = Inr (JArray [JObject []])"
    by (simp add: t) (simp add: exampleEnv_def exampleParse_def)
  from parsed_value_returned_unvalidated [OF k i ne p] k ne p
  show ?thesis by simp
qed

end
